theory Spec2Isabelle
  imports Complex_Main
begin

section \<open>JavaScript numbers\<close>

text \<open>
  A JavaScript \<^verbatim>\<open>number\<close> is modelled by its exact value: a rational, one of the two
  infinities, or NaN. Binary rounding of IEEE doubles is not modelled; \<^verbatim>\<open>-0\<close> and
  \<^verbatim>\<open>0\<close> coincide (both are falsy and compare alike).
\<close>

datatype jsnum = NaN | NegInf | Fin rat | PosInf

text \<open>The relational operator \<^verbatim>\<open><\<close> on numbers: false as soon as one side is NaN.\<close>

fun js_lt :: "jsnum \<Rightarrow> jsnum \<Rightarrow> bool" where
  "js_lt NaN _ = False"
| "js_lt _ NaN = False"
| "js_lt (Fin x) (Fin y) = (x < y)"
| "js_lt NegInf NegInf = False"
| "js_lt NegInf _ = True"
| "js_lt _ NegInf = False"
| "js_lt PosInf _ = False"
| "js_lt _ PosInf = True"

text \<open>ToBoolean on a number: NaN and zero are falsy.\<close>

fun truthy_num :: "jsnum \<Rightarrow> bool" where
  "truthy_num NaN = False"
| "truthy_num (Fin x) = (x \<noteq> 0)"
| "truthy_num _ = True"

section \<open>Flight categories\<close>

datatype FlightCategory = VFR | MVFR | IFR | LIFR

text \<open>
  \<^verbatim>\<open>x !== undefined && x < k\<close> for an optional number \<^verbatim>\<open>x\<close> and a numeric literal
  \<^verbatim>\<open>k\<close>.
\<close>

definition defined_lt :: "jsnum option \<Rightarrow> rat \<Rightarrow> bool" where
  "defined_lt x k = (case x of None \<Rightarrow> False | Some n \<Rightarrow> js_lt n (Fin k))"

text \<open>The helper \<^verbatim>\<open>determineFlightCategory(ceiling?, visibility?)\<close> of the analysis tools.\<close>

definition determineFlightCategory :: "jsnum option \<Rightarrow> jsnum option \<Rightarrow> FlightCategory" where
  "determineFlightCategory ceil_ft vis_sm =
     (if defined_lt ceil_ft 500 \<or> defined_lt vis_sm 1 then LIFR
      else if defined_lt ceil_ft 1000 \<or> defined_lt vis_sm 3 then IFR
      else if defined_lt ceil_ft 3000 \<or> defined_lt vis_sm 5 then MVFR
      else VFR)"

text \<open>
  The decision table in the words of the specification: four rules tried in order, each one
  an alternative of a ceiling bound and a visibility bound.
\<close>

fun below :: "jsnum option \<Rightarrow> rat \<Rightarrow> bool" where
  "below None k = False"
| "below (Some n) k = js_lt n (Fin k)"

fun first_rule :: "(rat \<times> rat \<times> FlightCategory) list \<Rightarrow> jsnum option \<Rightarrow> jsnum option \<Rightarrow> FlightCategory" where
  "first_rule [] c v = VFR"
| "first_rule ((kc, kv, cat) # rules) c v =
     (if below c kc \<or> below v kv then cat else first_rule rules c v)"

definition classify_spec :: "jsnum option \<Rightarrow> jsnum option \<Rightarrow> FlightCategory" where
  "classify_spec c v = first_rule [(500, 1, LIFR), (1000, 3, IFR), (3000, 5, MVFR)] c v"

text \<open>The order VFR > MVFR > IFR > LIFR, as a number: the larger, the better.\<close>

fun quality :: "FlightCategory \<Rightarrow> nat" where
  "quality LIFR = 0"
| "quality IFR = 1"
| "quality MVFR = 2"
| "quality VFR = 3"

section \<open>Strings\<close>

text \<open>
  A JavaScript string is modelled as a list of characters, one \<^typ>\<open>char\<close> for each code
  unit below 256; the texts handled here (station identifiers, METAR groups, numerals) are
  ASCII. White space is the ASCII white space of \<^verbatim>\<open>\s\<close> and of
  \<^verbatim>\<open>String.prototype.trim\<close>, together with the no-break space.
\<close>

definition is_ws :: "char \<Rightarrow> bool" where
  "is_ws c = (c \<in> set [CHR 0x09, CHR 0x0A, CHR 0x0B, CHR 0x0C, CHR 0x0D, CHR 0x20, CHR 0xA0])"

definition is_digit :: "char \<Rightarrow> bool" where
  "is_digit c = (c \<in> set ''0123456789'')"

definition is_upper :: "char \<Rightarrow> bool" where
  "is_upper c = (c \<in> set ''ABCDEFGHIJKLMNOPQRSTUVWXYZ'')"

definition digit_val :: "char \<Rightarrow> nat" where
  "digit_val c = of_char c - 48"

definition nat_of_digits :: "string \<Rightarrow> nat" where
  "nat_of_digits ds = foldl (\<lambda>a c. 10 * a + digit_val c) 0 ds"

definition trim :: "string \<Rightarrow> string" where
  "trim s = rev (dropWhile is_ws (rev (dropWhile is_ws s)))"

definition startsWith :: "string \<Rightarrow> string \<Rightarrow> bool" where
  "startsWith s t = (take (length t) s = t)"

definition endsWith :: "string \<Rightarrow> string \<Rightarrow> bool" where
  "endsWith s t = (length t \<le> length s \<and> drop (length s - length t) s = t)"

fun str_includes :: "string \<Rightarrow> string \<Rightarrow> bool" where
  "str_includes [] t = (t = [])"
| "str_includes (c # cs) t = (startsWith (c # cs) t \<or> str_includes cs t)"

text \<open>
  \<^verbatim>\<open>s.replace(p, r)\<close> with a string pattern: only the first occurrence of \<^verbatim>\<open>p\<close> is
  replaced (the replacements used here contain no \<^verbatim>\<open>$\<close>).
\<close>

fun replace_first :: "string \<Rightarrow> string \<Rightarrow> string \<Rightarrow> string" where
  "replace_first [] p r = (if p = [] then r else [])"
| "replace_first (c # cs) p r =
     (if startsWith (c # cs) p then r @ drop (length p) (c # cs) else c # replace_first cs p r)"

definition to_upper_char :: "char \<Rightarrow> char" where
  "to_upper_char c =
     (case map_of (zip ''abcdefghijklmnopqrstuvwxyz'' ''ABCDEFGHIJKLMNOPQRSTUVWXYZ'') c of
        None \<Rightarrow> c | Some u \<Rightarrow> u)"

text \<open>
  \<^verbatim>\<open>toUpperCase\<close>, on the ASCII letters. The letters beyond ASCII, which JavaScript
  upper-cases too, are left as they are.
\<close>

definition toUpperCase :: "string \<Rightarrow> string" where
  "toUpperCase s = map to_upper_char s"

section \<open>Numeric parsing\<close>

text \<open>
  The parsers return the exact value of the numeral read: a numeral too long for a double
  is not rounded, and one beyond the range of doubles does not become an infinity.
\<close>

definition pow10 :: "int \<Rightarrow> rat" where
  "pow10 e = (if 0 \<le> e then 10 ^ nat e else 1 / 10 ^ nat (- e))"

fun negate :: "jsnum \<Rightarrow> jsnum" where
  "negate NaN = NaN"
| "negate NegInf = PosInf"
| "negate PosInf = NegInf"
| "negate (Fin x) = Fin (- x)"

text \<open>
  The exponent part of a decimal literal: \<^verbatim>\<open>e\<close> or \<^verbatim>\<open>E\<close>, an optional sign and at
  least one digit; anything else contributes no exponent.
\<close>

definition exponent_part :: "string \<Rightarrow> int" where
  "exponent_part r =
     (case r of
        [] \<Rightarrow> 0
      | e # r1 \<Rightarrow>
          if e = CHR ''e'' \<or> e = CHR ''E'' then
            (case r1 of
               [] \<Rightarrow> 0
             | sg # r2 \<Rightarrow>
                 if sg = CHR ''+'' \<or> sg = CHR ''-'' then
                   (if takeWhile is_digit r2 = [] then 0
                    else if sg = CHR ''-'' then - int (nat_of_digits (takeWhile is_digit r2))
                    else int (nat_of_digits (takeWhile is_digit r2)))
                 else if takeWhile is_digit r1 = [] then 0
                 else int (nat_of_digits (takeWhile is_digit r1)))
          else 0)"

text \<open>
  The longest prefix that is an unsigned decimal literal (\<^verbatim>\<open>Infinity\<close>, digits with an
  optional fraction and exponent, or a fraction starting with the point), as its value.
\<close>

definition unsigned_decimal :: "string \<Rightarrow> jsnum" where
  "unsigned_decimal r =
     (if startsWith r ''Infinity'' then PosInf
      else
        (let ip = takeWhile is_digit r;
             r1 = dropWhile is_digit r;
             fp = (if startsWith r1 ''.'' then takeWhile is_digit (tl r1) else []);
             r2 = (if startsWith r1 ''.'' then dropWhile is_digit (tl r1) else r1)
         in if ip = [] \<and> fp = [] then NaN
            else Fin (of_nat (nat_of_digits (ip @ fp)) * pow10 (exponent_part r2 - int (length fp)))))"

text \<open>\<^verbatim>\<open>parseFloat\<close> on a string: leading white space, an optional sign, a decimal literal.\<close>

definition parseFloat_str :: "string \<Rightarrow> jsnum" where
  "parseFloat_str s =
     (case dropWhile is_ws s of
        [] \<Rightarrow> NaN
      | c # r \<Rightarrow>
          if c = CHR ''-'' then negate (unsigned_decimal r)
          else if c = CHR ''+'' then unsigned_decimal r
          else unsigned_decimal (c # r))"

definition is_hexdigit :: "char \<Rightarrow> bool" where
  "is_hexdigit c = (c \<in> set ''0123456789abcdefABCDEF'')"

definition hex_val :: "char \<Rightarrow> nat" where
  "hex_val c =
     (if is_digit c then digit_val c
      else if c \<in> set ''abcdef'' then of_char c - 87
      else of_char c - 55)"

definition nat_of_hexdigits :: "string \<Rightarrow> nat" where
  "nat_of_hexdigits ds = foldl (\<lambda>a c. 16 * a + hex_val c) 0 ds"

text \<open>
  The digits of \<^verbatim>\<open>parseInt(s)\<close> with no radix argument: base 16 after a prefix
  \<^verbatim>\<open>0x\<close> or \<^verbatim>\<open>0X\<close>, base 10 otherwise; no result (NaN) when no digit follows.
  The result of \<^verbatim>\<open>parseInt\<close> is an integer or NaN.
\<close>

definition unsigned_integer :: "string \<Rightarrow> int option" where
  "unsigned_integer r =
     (if startsWith r ''0x'' \<or> startsWith r ''0X'' then
        (if takeWhile is_hexdigit (drop 2 r) = [] then None
         else Some (int (nat_of_hexdigits (takeWhile is_hexdigit (drop 2 r)))))
      else if takeWhile is_digit r = [] then None
      else Some (int (nat_of_digits (takeWhile is_digit r))))"

definition parseInt_int :: "string \<Rightarrow> int option" where
  "parseInt_int s =
     (case dropWhile is_ws s of
        [] \<Rightarrow> None
      | c # r \<Rightarrow>
          if c = CHR ''-'' then map_option uminus (unsigned_integer r)
          else if c = CHR ''+'' then unsigned_integer r
          else unsigned_integer (c # r))"

definition int_result :: "int option \<Rightarrow> jsnum" where
  "int_result r = (case r of None \<Rightarrow> NaN | Some i \<Rightarrow> Fin (of_int i))"

definition parseInt_str :: "string \<Rightarrow> jsnum" where
  "parseInt_str s = int_result (parseInt_int s)"

section \<open>JavaScript values\<close>

text \<open>
  The values a decoded JSON response is made of. An object is its list of properties; a
  property that is not listed reads as \<^verbatim>\<open>undefined\<close>.
\<close>

datatype jsval =
    Undefined
  | Null
  | Bool bool
  | Num jsnum
  | Str string
  | Arr "jsval list"
  | Obj "(string \<times> jsval) list"

datatype error = TypeError | WeatherError string string

fun truthy :: "jsval \<Rightarrow> bool" where
  "truthy Undefined = False"
| "truthy Null = False"
| "truthy (Bool b) = b"
| "truthy (Num n) = truthy_num n"
| "truthy (Str s) = (s \<noteq> [])"
| "truthy (Arr xs) = True"
| "truthy (Obj kvs) = True"

text \<open>\<^verbatim>\<open>a || b\<close> on values.\<close>

definition js_or :: "jsval \<Rightarrow> jsval \<Rightarrow> jsval" where
  "js_or a b = (if truthy a then a else b)"

fun nullish :: "jsval \<Rightarrow> bool" where
  "nullish Undefined = True"
| "nullish Null = True"
| "nullish _ = False"

text \<open>
  Reading a property of a value that is neither \<^verbatim>\<open>null\<close> nor \<^verbatim>\<open>undefined\<close> (reading
  one of those raises a TypeError, which the callers below check first). None of the
  property names read in this program is inherited by strings, numbers, booleans or arrays.
\<close>

fun get_prop :: "jsval \<Rightarrow> string \<Rightarrow> jsval" where
  "get_prop (Obj kvs) k = (case map_of kvs k of None \<Rightarrow> Undefined | Some v \<Rightarrow> v)"
| "get_prop _ k = Undefined"

fun isArray :: "jsval \<Rightarrow> bool" where
  "isArray (Arr xs) = True"
| "isArray _ = False"

fun elems :: "jsval \<Rightarrow> jsval list" where
  "elems (Arr xs) = xs"
| "elems _ = []"

text \<open>
  \<^verbatim>\<open>parseFloat(v)\<close> first converts \<^verbatim>\<open>v\<close> to a string. A number prints as a literal that
  reads back as the same number; \<^verbatim>\<open>undefined\<close>, \<^verbatim>\<open>null\<close>, booleans and objects print
  as text that starts no numeral; an array prints its elements separated by commas (an
  element \<^verbatim>\<open>null\<close> or \<^verbatim>\<open>undefined\<close> as the empty string), so that only its first
  element can contribute a numeral.
\<close>

fun parseFloat :: "jsval \<Rightarrow> jsnum" where
  "parseFloat (Str s) = parseFloat_str s"
| "parseFloat (Num n) = n"
| "parseFloat (Arr (x # xs)) = (if nullish x then NaN else parseFloat x)"
| "parseFloat _ = NaN"

text \<open>
  The leading digit of a number printed in exponent notation, which is all that
  \<^verbatim>\<open>parseInt\<close> reads of it: of a natural number, and of a fraction \<^verbatim>\<open>p/q\<close> below one.
\<close>

fun lead_digit_nat :: "nat \<Rightarrow> nat" where
  "lead_digit_nat n = (if n < 10 then n else lead_digit_nat (n div 10))"

function lead_digit_frac :: "nat \<Rightarrow> nat \<Rightarrow> nat" where
  "lead_digit_frac p q =
     (if p = 0 \<or> q \<le> p then (if q = 0 then 0 else p div q) else lead_digit_frac (10 * p) q)"
  by pat_completeness auto
termination
  by (relation "measure (\<lambda>(p, q). q - p)") auto

text \<open>
  \<^verbatim>\<open>parseInt\<close> of a finite number: it is printed first, in plain decimal notation when
  its magnitude is zero or lies in \<^verbatim>\<open>[1e-6, 1e21)\<close> (the integer part is read), in exponent
  notation otherwise (the leading digit is read).
\<close>

definition parseInt_magnitude :: "rat \<Rightarrow> int" where
  "parseInt_magnitude a =
     (if a = 0 then 0
      else if 10 ^ 21 \<le> a then int (lead_digit_nat (nat \<lfloor>a\<rfloor>))
      else if a < 1 / 10 ^ 6 then
        int (lead_digit_frac (nat (fst (quotient_of a))) (nat (snd (quotient_of a))))
      else \<lfloor>a\<rfloor>)"

definition parseInt_num :: "jsnum \<Rightarrow> jsnum" where
  "parseInt_num n =
     (case n of
        Fin x \<Rightarrow> Fin (of_int (if x < 0 then - parseInt_magnitude (- x) else parseInt_magnitude x))
      | _ \<Rightarrow> NaN)"

fun parseInt :: "jsval \<Rightarrow> jsnum" where
  "parseInt (Str s) = parseInt_str s"
| "parseInt (Num n) = parseInt_num n"
| "parseInt (Arr (x # xs)) = (if nullish x then NaN else parseInt x)"
| "parseInt _ = NaN"

text \<open>\<^verbatim>\<open>n || undefined\<close> for a number \<^verbatim>\<open>n\<close>.\<close>

definition or_undefined :: "jsnum \<Rightarrow> jsnum option" where
  "or_undefined n = (if truthy_num n then Some n else None)"

text \<open>ToBoolean of an optional number.\<close>

definition truthy_opt :: "jsnum option \<Rightarrow> bool" where
  "truthy_opt x = (case x of None \<Rightarrow> False | Some n \<Rightarrow> truthy_num n)"

text \<open>\<^verbatim>\<open>a < b\<close> on optional numbers: \<^verbatim>\<open>undefined\<close> converts to NaN, which compares false.\<close>

definition opt_lt :: "jsnum option \<Rightarrow> jsnum option \<Rightarrow> bool" where
  "opt_lt a b = (case (a, b) of (Some x, Some y) \<Rightarrow> js_lt x y | _ \<Rightarrow> False)"

section \<open>The weather service: normalisation of values\<close>

text \<open>
  A parsed cloud layer, with its properties \<^verbatim>\<open>type\<close> and \<^verbatim>\<open>altitude\<close>. The cast to
  \<^verbatim>\<open>CloudLayer[]\<close> checks nothing: at run time the cover is whatever value the record held.
\<close>

record CloudLayer =
  ctype :: jsval
  altitude :: "jsnum option"


text \<open>\<^verbatim>\<open>AviationWeatherService.parseVisibility\<close>.\<close>

definition parseVisibility :: "jsval \<Rightarrow> jsnum option" where
  "parseVisibility v =
     (if \<not> truthy v then None
      else
        (case v of
           Str s \<Rightarrow>
             if endsWith s ''+'' then Some (parseFloat_str (replace_first s ''+'' ''''))
             else if startsWith s ''P'' \<and> endsWith s ''SM'' then
               Some (parseFloat_str (replace_first (replace_first s ''P'' '''') ''SM'' ''''))
             else or_undefined (parseFloat v)
         | _ \<Rightarrow> or_undefined (parseFloat v)))"

text \<open>
  \<^verbatim>\<open>AviationWeatherService.parseClouds\<close>. The callback of \<^verbatim>\<open>map\<close> reads properties of
  each entry, which raises a TypeError on an entry \<^verbatim>\<open>null\<close> or \<^verbatim>\<open>undefined\<close>.
\<close>

definition cloud_layer :: "jsval \<Rightarrow> CloudLayer" where
  "cloud_layer cloud =
     \<lparr> ctype = js_or (js_or (get_prop cloud ''cover'') (get_prop cloud ''skyCover'')) (Str ''CLR''),
       altitude = (if truthy (get_prop cloud ''base'') then Some (parseInt (get_prop cloud ''base'')) else None) \<rparr>"

fun map_clouds :: "jsval list \<Rightarrow> error + CloudLayer list" where
  "map_clouds [] = Inr []"
| "map_clouds (cloud # rest) =
     (if nullish cloud then Inl TypeError
      else (case map_clouds rest of Inl e \<Rightarrow> Inl e | Inr layers \<Rightarrow> Inr (cloud_layer cloud # layers)))"

definition parseClouds :: "jsval \<Rightarrow> error + CloudLayer list" where
  "parseClouds cs = (if \<not> isArray cs then Inr [] else map_clouds (elems cs))"

text \<open>
  The search for the lowest ceiling, the loop shared by the service's
  \<^verbatim>\<open>determineFlightCategory\<close> and by \<^verbatim>\<open>checkVfrMinimums\<close>: the variable \<^verbatim>\<open>ceiling\<close>
  starts undefined and is lowered by each BKN or OVC layer with a truthy altitude.
\<close>

fun ceiling_loop :: "CloudLayer list \<Rightarrow> jsnum option \<Rightarrow> jsnum option" where
  "ceiling_loop [] ceil = ceil"
| "ceiling_loop (cloud # rest) ceil =
     ceiling_loop rest
       (if (ctype cloud = Str ''BKN'' \<or> ctype cloud = Str ''OVC'') \<and> truthy_opt (altitude cloud)
        then (if \<not> truthy_opt ceil \<or> opt_lt (altitude cloud) ceil then altitude cloud else ceil)
        else ceil)"

definition lowest_ceiling :: "CloudLayer list \<Rightarrow> jsnum option" where
  "lowest_ceiling layers = ceiling_loop layers None"

text \<open>\<^verbatim>\<open>x && x < k\<close> for an optional number \<^verbatim>\<open>x\<close> and a numeric literal \<^verbatim>\<open>k\<close>.\<close>

definition truthy_lt :: "jsnum option \<Rightarrow> rat \<Rightarrow> bool" where
  "truthy_lt x k = (truthy_opt x \<and> opt_lt x (Some (Fin k)))"

text \<open>
  \<^verbatim>\<open>AviationWeatherService.determineFlightCategory(data)\<close>, the private method that
  computes the category embedded in a parsed observation.
\<close>

definition service_determineFlightCategory :: "jsval \<Rightarrow> error + FlightCategory" where
  "service_determineFlightCategory data =
     (let vis = parseVisibility (get_prop data ''visib'') in
      case parseClouds (js_or (get_prop data ''clouds'') (Arr [])) of
        Inl e \<Rightarrow> Inl e
      | Inr layers \<Rightarrow>
          (let ceil = lowest_ceiling layers in
           Inr (if truthy_lt ceil 500 \<or> truthy_lt vis 1 then LIFR
                else if truthy_lt ceil 1000 \<or> truthy_lt vis 3 then IFR
                else if truthy_lt ceil 3000 \<or> truthy_lt vis 5 then MVFR
                else VFR)))"

section \<open>The weather service: mapping of observations\<close>

record MetarData =
  raw :: jsval
  station :: jsval
  observationTime :: jsval
  temperature :: "jsnum option"
  dewpoint :: "jsnum option"
  windDirection :: "jsnum option"
  windSpeed :: "jsnum option"
  windGust :: "jsnum option"
  visibility :: "jsnum option"
  altimeter :: "jsnum option"
  clouds :: "CloudLayer list"
  weather :: "jsval list"
  flightCategory :: FlightCategory

text \<open>
  \<^verbatim>\<open>AviationWeatherService.parseMetarResponse\<close>. Reading a property of a record that is
  \<^verbatim>\<open>null\<close> or \<^verbatim>\<open>undefined\<close> raises a TypeError.
\<close>

definition parseMetarResponse :: "jsval \<Rightarrow> error + MetarData" where
  "parseMetarResponse data =
     (if nullish data then Inl TypeError
      else
        (case parseClouds (js_or (js_or (get_prop data ''clouds'') (get_prop data ''skyCondition'')) (Arr [])) of
           Inl e \<Rightarrow> Inl e
         | Inr layers \<Rightarrow>
             (case service_determineFlightCategory data of
                Inl e \<Rightarrow> Inl e
              | Inr cat \<Rightarrow>
                  Inr \<lparr> raw = js_or (js_or (get_prop data ''rawOb'') (get_prop data ''raw_text'')) (Str ''''),
                        station = js_or (js_or (get_prop data ''icaoId'') (get_prop data ''station'')) (Str ''''),
                        observationTime =
                          js_or (js_or (get_prop data ''obsTime'') (get_prop data ''observation_time'')) (Str ''''),
                        temperature = or_undefined (parseFloat (get_prop data ''temp'')),
                        dewpoint = or_undefined (parseFloat (get_prop data ''dewp'')),
                        windDirection = or_undefined (parseInt (get_prop data ''wdir'')),
                        windSpeed = or_undefined (parseInt (get_prop data ''wspd'')),
                        windGust = or_undefined (parseInt (get_prop data ''wgst'')),
                        visibility = parseVisibility (get_prop data ''visib''),
                        altimeter = or_undefined (parseFloat (get_prop data ''altim'')),
                        clouds = layers,
                        weather = (if truthy (get_prop data ''wxString'') then [get_prop data ''wxString''] else []),
                        flightCategory = cat \<rparr>)))"

section \<open>The weather service: station lookup\<close>





section \<open>The weather service: intensities of pilot reports\<close>

datatype Intensity = TRACE | LIGHT | MODERATE | SEVERE | EXTREME

text \<open>\<^verbatim>\<open>AviationWeatherService.parseTurbulenceIntensity\<close>.\<close>

definition parseTurbulenceIntensity :: "string \<Rightarrow> Intensity" where
  "parseTurbulenceIntensity v =
     (let upper = toUpperCase v in
      if str_includes upper ''EXTREME'' then EXTREME
      else if str_includes upper ''SEVERE'' then SEVERE
      else if str_includes upper ''MODERATE'' then MODERATE
      else LIGHT)"

text \<open>\<^verbatim>\<open>AviationWeatherService.parseIcingIntensity\<close>.\<close>

definition parseIcingIntensity :: "string \<Rightarrow> Intensity" where
  "parseIcingIntensity v =
     (let upper = toUpperCase v in
      if str_includes upper ''SEVERE'' then SEVERE
      else if str_includes upper ''MODERATE'' then MODERATE
      else if str_includes upper ''TRACE'' then TRACE
      else LIGHT)"

text \<open>
  The intensities from best to worst, and the token that stands for each. An intensity
  occurs in a text when its token is a substring of the text in upper case.
\<close>

fun severity :: "Intensity \<Rightarrow> nat" where
  "severity TRACE = 0"
| "severity LIGHT = 1"
| "severity MODERATE = 2"
| "severity SEVERE = 3"
| "severity EXTREME = 4"

fun token :: "Intensity \<Rightarrow> string" where
  "token TRACE = ''TRACE''"
| "token LIGHT = ''LIGHT''"
| "token MODERATE = ''MODERATE''"
| "token SEVERE = ''SEVERE''"
| "token EXTREME = ''EXTREME''"

definition occurs :: "Intensity \<Rightarrow> string \<Rightarrow> bool" where
  "occurs i v = str_includes (toUpperCase v) (token i)"

text \<open>
  The worst intensity of a table (listed from worst to best) that occurs in the text, and
  the default when none does.
\<close>

fun worst_match :: "Intensity list \<Rightarrow> Intensity \<Rightarrow> string \<Rightarrow> Intensity" where
  "worst_match [] dflt v = dflt"
| "worst_match (i # table) dflt v = (if occurs i v then i else worst_match table dflt v)"

section \<open>Segmentation of raw observation text\<close>

text \<open>
  The minimal record pushed for a line of raw text, with its two properties \<^verbatim>\<open>raw\<close> and
  \<^verbatim>\<open>station\<close>.
\<close>

record RawMetar =
  raw_text :: string
  station_id :: string

text \<open>\<^verbatim>\<open>s.split(d)\<close> for a separator of one character.\<close>

fun split_acc :: "char \<Rightarrow> string \<Rightarrow> string \<Rightarrow> string list" where
  "split_acc d cur [] = [rev cur]"
| "split_acc d cur (c # cs) =
     (if c = d then rev cur # split_acc d [] cs else split_acc d (c # cur) cs)"

definition split_char :: "char \<Rightarrow> string \<Rightarrow> string list" where
  "split_char d s = split_acc d [] s"

text \<open>The regular expression \<^verbatim>\<open>/^[A-Z]{4}$/\<close>.\<close>

definition station_pattern :: "string \<Rightarrow> bool" where
  "station_pattern s = (length s = 4 \<and> list_all is_upper s)"

text \<open>
  The branch of \<^verbatim>\<open>getMetarByBounds\<close> for a response that is text: the loop over the
  non-blank lines, pushing one record for each line whose first part matches. Calling
  \<^verbatim>\<open>match\<close> on a missing first part would raise a TypeError.
\<close>

fun segment_loop :: "string list \<Rightarrow> RawMetar list \<Rightarrow> error + RawMetar list" where
  "segment_loop [] results = Inr results"
| "segment_loop (line # lines) results =
     (if trim line \<noteq> [] then
        (case split_char (CHR '' '') (trim line) of
           [] \<Rightarrow> Inl TypeError
         | part0 # parts \<Rightarrow>
             if station_pattern part0
             then segment_loop lines (results @ [\<lparr> raw_text = trim line, station_id = part0 \<rparr>])
             else segment_loop lines results)
      else segment_loop lines results)"

definition getMetarByBounds_text :: "string \<Rightarrow> error + RawMetar list" where
  "getMetarByBounds_text data =
     segment_loop (filter (\<lambda>line. trim line \<noteq> []) (split_char (CHR 0x0A) data)) []"

text \<open>
  The segmentation in the words of the specification: the non-blank lines, the first token
  of a line as delimited by white space, respectively by the space character.
\<close>

definition first_ws_token :: "string \<Rightarrow> string" where
  "first_ws_token l = takeWhile (\<lambda>c. \<not> is_ws c) (trim l)"

definition first_space_token :: "string \<Rightarrow> string" where
  "first_space_token l = takeWhile (\<lambda>c. c \<noteq> CHR '' '') (trim l)"

definition segment_by :: "(string \<Rightarrow> string) \<Rightarrow> string \<Rightarrow> RawMetar list" where
  "segment_by tok data =
     map (\<lambda>l. \<lparr> raw_text = trim l, station_id = tok l \<rparr>)
       (filter (\<lambda>l. trim l \<noteq> [] \<and> station_pattern (tok l)) (split_char (CHR 0x0A) data))"

section \<open>The METAR decoder\<close>

subsection \<open>Text primitives\<close>

definition nl :: string where
  "nl = [CHR 0x0A]"

text \<open>The degree sign, code unit 0xB0.\<close>

definition degree :: string where
  "degree = [CHR 0xB0]"

text \<open>
  \<^verbatim>\<open>s.split(/\s+/)\<close>: the flag tells whether the scan is inside a run of white space; a
  text that starts or ends with white space yields an empty first or last part.
\<close>

fun split_ws_acc :: "bool \<Rightarrow> string \<Rightarrow> string \<Rightarrow> string list" where
  "split_ws_acc sep cur [] = [rev cur]"
| "split_ws_acc sep cur (c # cs) =
     (if is_ws c then (if sep then split_ws_acc True cur cs else rev cur # split_ws_acc True [] cs)
      else split_ws_acc False (c # cur) cs)"

definition split_ws :: "string \<Rightarrow> string list" where
  "split_ws s = split_ws_acc False [] s"

fun join :: "string \<Rightarrow> string list \<Rightarrow> string" where
  "join sep [] = []"
| "join sep [x] = x"
| "join sep (x # y # rest) = x @ sep @ join sep (y # rest)"

definition digit_char :: "nat \<Rightarrow> char" where
  "digit_char d = ''0123456789'' ! (d mod 10)"

fun show_nat :: "nat \<Rightarrow> string" where
  "show_nat n = (if n < 10 then [digit_char n] else show_nat (n div 10) @ [digit_char (n mod 10)])"

text \<open>
  A number that is an integer (of magnitude below \<^verbatim>\<open>1e21\<close>, printed in plain decimal
  notation) or NaN, as a template literal prints it.
\<close>

definition number_text :: "int option \<Rightarrow> string" where
  "number_text r =
     (case r of
        None \<Rightarrow> ''NaN''
      | Some i \<Rightarrow> if i < 0 then ''-'' @ show_nat (nat (- i)) else show_nat (nat i))"

text \<open>\<^verbatim>\<open>(n / 100).toFixed(2)\<close> for an integer \<^verbatim>\<open>n\<close>, or for NaN.\<close>

definition hundredths_text :: "int option \<Rightarrow> string" where
  "hundredths_text r =
     (case r of
        None \<Rightarrow> ''NaN''
      | Some i \<Rightarrow>
          (if i < 0 then ''-'' else '''') @ show_nat (nat \<bar>i\<bar> div 100) @ ''.''
            @ [digit_char (nat \<bar>i\<bar> mod 100 div 10), digit_char (nat \<bar>i\<bar> mod 10)])"

subsection \<open>The regular expressions\<close>

text \<open>A pattern without \<^verbatim>\<open>^\<close> matches when it matches at some position of the text.\<close>

fun search :: "(string \<Rightarrow> bool) \<Rightarrow> string \<Rightarrow> bool" where
  "search P [] = P []"
| "search P (c # cs) = (P (c # cs) \<or> search P cs)"

text \<open>\<^verbatim>\<open>\d{n}\<close> at the start of a text.\<close>

definition digits_at :: "nat \<Rightarrow> string \<Rightarrow> bool" where
  "digits_at n s = (n \<le> length s \<and> list_all is_digit (take n s))"

text \<open>\<^verbatim>\<open>\d{6}Z\<close> at the start of a text.\<close>

definition time_at :: "string \<Rightarrow> bool" where
  "time_at s = (digits_at 6 s \<and> startsWith (drop 6 s) ''Z'')"

text \<open>\<^verbatim>\<open>\d{3}\d{2}(G\d{2})?KT\<close> at the start of a text.\<close>

definition wind_at :: "string \<Rightarrow> bool" where
  "wind_at s =
     (digits_at 5 s
      \<and> ((startsWith (drop 5 s) ''G'' \<and> digits_at 2 (drop 6 s) \<and> startsWith (drop 8 s) ''KT'')
         \<or> startsWith (drop 5 s) ''KT''))"

text \<open>The group of the first match of \<^verbatim>\<open>/G(\d{2})/\<close>, if there is a match.\<close>

fun find_gust :: "string \<Rightarrow> string option" where
  "find_gust [] = None"
| "find_gust (c # cs) = (if c = CHR ''G'' \<and> digits_at 2 cs then Some (take 2 cs) else find_gust cs)"

text \<open>\<^verbatim>\<open>/^\d+SM$/\<close>.\<close>

definition whole_miles :: "string \<Rightarrow> bool" where
  "whole_miles s = (takeWhile is_digit s \<noteq> [] \<and> dropWhile is_digit s = ''SM'')"

text \<open>An optional letter \<^verbatim>\<open>M\<close> at the start of a text, taken off.\<close>

definition after_m :: "string \<Rightarrow> string" where
  "after_m s = (if startsWith s ''M'' then tl s else s)"

text \<open>\<^verbatim>\<open>/^M?\d+\/\d+SM$/\<close>.\<close>

definition fraction_miles :: "string \<Rightarrow> bool" where
  "fraction_miles s =
     (takeWhile is_digit (after_m s) \<noteq> []
      \<and> startsWith (dropWhile is_digit (after_m s)) ''/''
      \<and> whole_miles (tl (dropWhile is_digit (after_m s))))"

text \<open>An optional sign \<^verbatim>\<open>(\+|-)?\<close> at the start of a text, taken off.\<close>

definition after_sign :: "string \<Rightarrow> string" where
  "after_sign s = (if startsWith s ''+'' \<or> startsWith s ''-'' then tl s else s)"

text \<open>\<^verbatim>\<open>/^[A-Z]{lo,hi}$/\<close>.\<close>

definition upper_run :: "nat \<Rightarrow> nat \<Rightarrow> string \<Rightarrow> bool" where
  "upper_run lo hi s = (lo \<le> length s \<and> length s \<le> hi \<and> list_all is_upper s)"

text \<open>\<^verbatim>\<open>/^(\+|-)?(VC)?[A-Z]{2,6}$/\<close>.\<close>

definition weather_pattern :: "string \<Rightarrow> bool" where
  "weather_pattern s =
     ((startsWith (after_sign s) ''VC'' \<and> upper_run 2 6 (drop 2 (after_sign s)))
      \<or> upper_run 2 6 (after_sign s))"

text \<open>
  \<^verbatim>\<open>part.replace(/^(\+|-)?VC?/, '')\<close>: the pattern asks for the letter \<^verbatim>\<open>V\<close> after the
  optional sign, and takes a following \<^verbatim>\<open>C\<close> with it; a text without that \<^verbatim>\<open>V\<close> is left
  as it is.
\<close>

definition strip_vicinity :: "string \<Rightarrow> string" where
  "strip_vicinity part =
     (if startsWith (after_sign part) ''V'' then
        (if startsWith (tl (after_sign part)) ''C'' then drop 2 (after_sign part)
         else tl (after_sign part))
      else part)"

text \<open>\<^verbatim>\<open>/^(CLR|SKC|FEW|SCT|BKN|OVC)\d{3}(CB|TCU)?$/\<close>.\<close>

definition cloud_pattern :: "string \<Rightarrow> bool" where
  "cloud_pattern s =
     (take 3 s \<in> set [''CLR'', ''SKC'', ''FEW'', ''SCT'', ''BKN'', ''OVC'']
      \<and> digits_at 3 (drop 3 s)
      \<and> drop 6 s \<in> set ['''', ''CB'', ''TCU''])"

text \<open>\<^verbatim>\<open>/^M?\d{2}\/M?\d{2}$/\<close>.\<close>

definition temperature_pattern :: "string \<Rightarrow> bool" where
  "temperature_pattern s =
     (digits_at 2 (after_m s)
      \<and> startsWith (drop 2 (after_m s)) ''/''
      \<and> digits_at 2 (after_m (drop 3 (after_m s)))
      \<and> length (after_m (drop 3 (after_m s))) = 2)"

text \<open>\<^verbatim>\<open>/^A\d{4}$/\<close> and \<^verbatim>\<open>/^Q\d{4}$/\<close>, for the letter given.\<close>

definition pressure_pattern :: "char \<Rightarrow> string \<Rightarrow> bool" where
  "pressure_pattern c s = (startsWith s [c] \<and> digits_at 4 (tl s) \<and> length s = 5)"

subsection \<open>The stages of the scan\<close>

text \<open>
  The decoder keeps an index into the parts of the report and only ever moves it forward;
  a stage is modelled as a function of the parts from the index on, returning the parts
  from the new index on and the text it appends. \<^verbatim>\<open>parts[index]\<close> is undefined when no
  part is left.
\<close>

definition type_stage :: "string list \<Rightarrow> string list \<times> string" where
  "type_stage ps =
     (case ps of
        [] \<Rightarrow> (ps, '''')
      | p # rest \<Rightarrow>
          if p = ''METAR'' \<or> p = ''SPECI'' then
            (rest, ''Type: '' @ (if p = ''SPECI'' then ''Special observation'' else ''Routine observation'') @ nl)
          else (ps, ''''))"

definition station_stage :: "string list \<Rightarrow> string list \<times> string" where
  "station_stage ps =
     (case ps of
        [] \<Rightarrow> (ps, '''')
      | p # rest \<Rightarrow>
          if p \<noteq> [] \<and> station_pattern p then (rest, ''Station: '' @ p @ nl) else (ps, ''''))"

definition time_stage :: "string list \<Rightarrow> string list \<times> string" where
  "time_stage ps =
     (case ps of
        [] \<Rightarrow> (ps, '''')
      | p # rest \<Rightarrow>
          if p \<noteq> [] \<and> search time_at p then
            (rest, ''Observation Time: Day '' @ take 2 p @ '', '' @ take 2 (drop 2 p) @ '':''
                     @ take 2 (drop 4 p) @ '' UTC'' @ nl)
          else (ps, ''''))"

definition wind_stage :: "string list \<Rightarrow> string list \<times> string" where
  "wind_stage ps =
     (case ps of
        [] \<Rightarrow> (ps, '''')
      | p # rest \<Rightarrow>
          if p \<noteq> [] \<and> search wind_at p then
            (rest, ''Wind: '' @ (if take 3 p = ''VRB'' then ''Variable'' else take 3 p @ degree)
                     @ '' at '' @ number_text (parseInt_int (take 2 (drop 3 p))) @ '' knots''
                     @ (case find_gust p of
                          None \<Rightarrow> ''''
                        | Some g \<Rightarrow> '' gusting to '' @ number_text (parseInt_int g) @ '' knots'')
                     @ nl)
          else (ps, ''''))"

text \<open>The visibility loop skips every part up to the first one that is a visibility.\<close>

fun visibility_loop :: "string list \<Rightarrow> string list \<times> string" where
  "visibility_loop [] = ([], '''')"
| "visibility_loop (part # rest) =
     (if whole_miles part \<or> fraction_miles part \<or> part = ''CAVOK'' then
        (rest,
         if part = ''CAVOK''
         then ''Visibility: Ceiling and Visibility OK (>10SM, no clouds below 5000ft)'' @ nl
         else ''Visibility: '' @ part @ nl)
      else visibility_loop rest)"

definition weatherCodes :: "(string \<times> string) list" where
  "weatherCodes =
     [(''RA'', ''Rain''), (''SN'', ''Snow''), (''BR'', ''Mist''), (''FG'', ''Fog''), (''HZ'', ''Haze''),
      (''TS'', ''Thunderstorm''), (''SH'', ''Showers''), (''FZ'', ''Freezing''), (''DZ'', ''Drizzle'')]"

definition weather_description :: "string \<Rightarrow> string" where
  "weather_description part =
     (if startsWith part ''+'' then ''Heavy '' else '''')
     @ (if startsWith part ''-'' then ''Light '' else '''')
     @ (if str_includes part ''VC'' then ''In vicinity '' else '''')
     @ concat (map (\<lambda>(key, val). if str_includes (strip_vicinity part) key then val @ '' '' else '''')
                weatherCodes)"

fun weather_loop :: "string list \<Rightarrow> string list \<Rightarrow> string list \<times> string list" where
  "weather_loop [] wx = ([], wx)"
| "weather_loop (part # rest) wx =
     (if weather_pattern part then
        weather_loop rest
          (if weather_description part \<noteq> [] then wx @ [trim (weather_description part)]
           else wx)
      else (part # rest, wx))"

definition typeMap :: "(string \<times> string) list" where
  "typeMap =
     [(''CLR'', ''Clear''), (''SKC'', ''Sky Clear''), (''FEW'', ''Few''), (''SCT'', ''Scattered''),
      (''BKN'', ''Broken''), (''OVC'', ''Overcast'')]"

definition cloud_description :: "string \<Rightarrow> string" where
  "cloud_description part =
     (case map_of typeMap (take 3 part) of None \<Rightarrow> ''undefined'' | Some t \<Rightarrow> t)
     @ '' at ''
     @ number_text (map_option (\<lambda>h. h * 100) (parseInt_int (take 3 (drop 3 part))))
     @ '' ft''
     @ (if str_includes part ''CB'' then '' Cumulonimbus''
        else if str_includes part ''TCU'' then '' Towering Cumulus'' else '''')"

fun clouds_loop :: "string list \<Rightarrow> string list \<Rightarrow> string list \<times> string list" where
  "clouds_loop [] cl = ([], cl)"
| "clouds_loop (part # rest) cl =
     (if cloud_pattern part then clouds_loop rest (cl @ [cloud_description part])
      else if part = ''CLR'' \<or> part = ''SKC'' then clouds_loop rest (cl @ [''Clear skies''])
      else (part # rest, cl))"

text \<open>
  The temperature stage splits the part at the slash and calls \<^verbatim>\<open>replace\<close> on the first
  two pieces; on a missing piece that call raises a TypeError.
\<close>

definition temperature_stage :: "string list \<Rightarrow> error + string list \<times> string" where
  "temperature_stage ps =
     (case ps of
        [] \<Rightarrow> Inr (ps, '''')
      | p # rest \<Rightarrow>
          if temperature_pattern p then
            (case split_char (CHR ''/'') p of
               t0 # t1 # ts \<Rightarrow>
                 Inr (rest, ''Temperature: '' @ replace_first t0 ''M'' ''-'' @ degree @ ''C, Dewpoint: ''
                              @ replace_first t1 ''M'' ''-'' @ degree @ ''C'' @ nl)
             | _ \<Rightarrow> Inl TypeError)
          else Inr (ps, ''''))"

definition altimeter_stage :: "string list \<Rightarrow> string list \<times> string" where
  "altimeter_stage ps =
     (case ps of
        [] \<Rightarrow> (ps, '''')
      | p # rest \<Rightarrow>
          if pressure_pattern (CHR ''A'') p \<or> pressure_pattern (CHR ''Q'') p then
            (rest,
             if startsWith p ''A''
             then ''Altimeter: '' @ hundredths_text (parseInt_int (drop 1 p)) @ '' inHg'' @ nl
             else ''QNH: '' @ number_text (parseInt_int (drop 1 p)) @ '' hPa'' @ nl)
          else (ps, ''''))"

text \<open>The remarks: every part after the first part \<^verbatim>\<open>RMK\<close>, when there is one.\<close>

definition remarks_text :: "string list \<Rightarrow> string" where
  "remarks_text parts =
     (case dropWhile (\<lambda>p. p \<noteq> ''RMK'') parts of
        [] \<Rightarrow> ''''
      | rmk # after \<Rightarrow> ''Remarks: '' @ join '' '' after @ nl)"

subsection \<open>The decoder\<close>

definition decodeMetar :: "string \<Rightarrow> error + string" where
  "decodeMetar raw_report =
     (let parts = split_ws (trim raw_report);
          (ps1, t1) = type_stage parts;
          (ps2, t2) = station_stage ps1;
          (ps3, t3) = time_stage ps2;
          (ps4, t4) = wind_stage ps3;
          (ps5, t5) = visibility_loop ps4;
          (ps6, wx) = weather_loop ps5 [];
          t6 = (if wx \<noteq> [] then ''Weather: '' @ join '', '' wx @ nl else '''');
          (ps7, cl) = clouds_loop ps6 [];
          t7 = (if cl \<noteq> [] then ''Clouds: '' @ join '', '' cl @ nl else '''')
      in case temperature_stage ps7 of
           Inl e \<Rightarrow> Inl e
         | Inr (ps8, t8) \<Rightarrow>
             (let (ps9, t9) = altimeter_stage ps8
              in Inr (''Decoded METAR:'' @ nl @ nl @ t1 @ t2 @ t3 @ t4 @ t5 @ t6 @ t7 @ t8 @ t9
                       @ remarks_text parts)))"

section \<open>Properties of the classifier\<close>

lemma defined_lt_below: "defined_lt x k = below x k"
  by (cases x) (simp_all add: defined_lt_def)

lemma js_lt_trans: "js_lt a b \<Longrightarrow> js_lt b c \<Longrightarrow> js_lt a c"
  by (cases a; cases b; cases c) simp_all

lemma defined_lt_mono:
  "js_lt a b \<Longrightarrow> defined_lt (Some b) k \<Longrightarrow> defined_lt (Some a) k"
  unfolding defined_lt_def by (simp add: js_lt_trans [of a b "Fin k"])

text \<open>
  C1. For every optional ceiling and optional visibility the classifier returns the category
  of the first rule that fires in the order LIFR (ceiling below 500 or visibility below 1),
  IFR (below 1000 or below 3), MVFR (below 3000 or below 5), and VFR otherwise, also when
  both inputs are undefined. The comparisons are strict: a value exactly at a threshold
  is classified in the better category.
\<close>

theorem C1_classifier_decision_table:
  "determineFlightCategory c v = classify_spec c v
   \<and> determineFlightCategory None None = VFR
   \<and> determineFlightCategory (Some (Fin 500)) None = IFR
   \<and> determineFlightCategory (Some (Fin 1000)) None = MVFR
   \<and> determineFlightCategory (Some (Fin 3000)) None = VFR
   \<and> determineFlightCategory None (Some (Fin 1)) = IFR
   \<and> determineFlightCategory None (Some (Fin 3)) = MVFR
   \<and> determineFlightCategory None (Some (Fin 5)) = VFR"
  by (simp add: determineFlightCategory_def classify_spec_def defined_lt_below)

text \<open>
  C3. The classifier is monotonic: lowering the ceiling with the visibility held fixed, or
  lowering the visibility with the ceiling held fixed, never yields a better category in
  the order VFR > MVFR > IFR > LIFR.
\<close>

theorem C3_classifier_monotonic:
  "(js_lt c' c \<longrightarrow>
      quality (determineFlightCategory (Some c') vis) \<le> quality (determineFlightCategory (Some c) vis))
   \<and> (js_lt v' v \<longrightarrow>
      quality (determineFlightCategory cl (Some v')) \<le> quality (determineFlightCategory cl (Some v)))"
proof (intro conjI impI)
  assume lt: "js_lt c' c"
  have m: "\<And>k. defined_lt (Some c) k \<Longrightarrow> defined_lt (Some c') k"
    using lt by (rule defined_lt_mono)
  show "quality (determineFlightCategory (Some c') vis) \<le> quality (determineFlightCategory (Some c) vis)"
    using m [of 500] m [of 1000] m [of 3000]
    by (auto simp add: determineFlightCategory_def)
next
  assume lt: "js_lt v' v"
  have m: "\<And>k. defined_lt (Some v) k \<Longrightarrow> defined_lt (Some v') k"
    using lt by (rule defined_lt_mono)
  show "quality (determineFlightCategory cl (Some v')) \<le> quality (determineFlightCategory cl (Some v))"
    using m [of 1] m [of 3] m [of 5]
    by (auto simp add: determineFlightCategory_def)
qed

theorem C3_classifier_monotonic_witness:
  "js_lt (Fin 400) (Fin 2500)
   \<and> quality (determineFlightCategory (Some (Fin 400)) (Some (Fin 10)))
       \<le> quality (determineFlightCategory (Some (Fin 2500)) (Some (Fin 10)))
   \<and> js_lt (Fin (1/2)) (Fin 4)
   \<and> quality (determineFlightCategory (Some (Fin 5000)) (Some (Fin (1/2))))
       \<le> quality (determineFlightCategory (Some (Fin 5000)) (Some (Fin 4)))"
  using C3_classifier_monotonic [of "Fin 400" "Fin 2500" "Some (Fin 10)" "Fin (1/2)" "Fin 4" "Some (Fin 5000)"]
  by simp

section \<open>Evaluation of the string and number primitives\<close>

lemmas str_defs = is_ws_def is_digit_def startsWith_def endsWith_def nat_of_digits_def digit_val_def

lemmas parseFloat_defs = parseFloat_str_def unsigned_decimal_def exponent_part_def pow10_def

lemmas parseInt_defs = parseInt_str_def parseInt_int_def unsigned_integer_def int_result_def

lemmas upper_defs = toUpperCase_def to_upper_char_def

section \<open>Properties of the observation mapping\<close>

text \<open>
  The ceiling found by the loop is undefined or truthy, and on such values, as on NaN, the
  truthiness guard of the service and the \<^verbatim>\<open>!== undefined\<close> guard of the helper agree.
\<close>

lemma ceiling_loop_truthy:
  "ceil = None \<or> truthy_opt ceil \<Longrightarrow>
   ceiling_loop layers ceil = None \<or> truthy_opt (ceiling_loop layers ceil)"
  by (induction layers arbitrary: ceil) auto

lemma lowest_ceiling_truthy:
  "lowest_ceiling layers = None \<or> truthy_opt (lowest_ceiling layers)"
  unfolding lowest_ceiling_def by (rule ceiling_loop_truthy) simp

lemma truthy_lt_defined_lt:
  "x = None \<or> truthy_opt x \<or> x = Some NaN \<Longrightarrow> truthy_lt x k = defined_lt x k"
  by (cases x) (auto simp add: truthy_lt_def defined_lt_def truthy_opt_def opt_lt_def)

text \<open>
  The category computed by the service's method is the classifier's category of the ceiling
  of \<^verbatim>\<open>data.clouds\<close> and of the parsed visibility, unless that visibility is the number 0.
\<close>

lemma service_rule_is_classifier:
  assumes "parseClouds (js_or (get_prop data ''clouds'') (Arr [])) = Inr layers"
    and "parseVisibility (get_prop data ''visib'') \<noteq> Some (Fin 0)"
  shows "service_determineFlightCategory data
     = Inr (determineFlightCategory (lowest_ceiling layers) (parseVisibility (get_prop data ''visib'')))"
proof -
  let ?v = "parseVisibility (get_prop data ''visib'')"
  have v: "?v = None \<or> truthy_opt ?v \<or> ?v = Some NaN"
  proof (cases ?v)
    case None
    then show ?thesis by simp
  next
    case (Some n)
    with assms(2) show ?thesis by (cases n) (auto simp add: truthy_opt_def)
  qed
  have c: "lowest_ceiling layers = None \<or> truthy_opt (lowest_ceiling layers) \<or> lowest_ceiling layers = Some NaN"
    using lowest_ceiling_truthy [of layers] by blast
  show ?thesis
    by (simp add: service_determineFlightCategory_def assms(1) determineFlightCategory_def Let_def
        truthy_lt_defined_lt [OF v] truthy_lt_defined_lt [OF c])
qed

text \<open>
  Where the record carries its layers under \<^verbatim>\<open>clouds\<close> (or carries none under
  \<^verbatim>\<open>skyCondition\<close>) and the parsed visibility is not the number 0, the embedded category
  is the classifier's.
\<close>

lemma embedded_category_agrees:
  assumes "parseMetarResponse data = Inr m"
    and "truthy (get_prop data ''clouds'') \<or> \<not> truthy (get_prop data ''skyCondition'')"
    and "visibility m \<noteq> Some (Fin 0)"
  shows "flightCategory m = determineFlightCategory (lowest_ceiling (clouds m)) (visibility m)"
proof -
  have same: "js_or (js_or (get_prop data ''clouds'') (get_prop data ''skyCondition'')) (Arr [])
      = js_or (get_prop data ''clouds'') (Arr [])"
    using assms(2) by (auto simp add: js_or_def)
  from assms(1) obtain layers cat where
    l: "parseClouds (js_or (get_prop data ''clouds'') (Arr [])) = Inr layers" and
    s: "service_determineFlightCategory data = Inr cat" and
    m: "clouds m = layers" "visibility m = parseVisibility (get_prop data ''visib'')" "flightCategory m = cat"
    unfolding parseMetarResponse_def same
    by (auto split: if_splits sum.splits)
  from assms(3) m(2) have "parseVisibility (get_prop data ''visib'') \<noteq> Some (Fin 0)" by simp
  from service_rule_is_classifier [OF l this] s m show ?thesis by simp
qed

text \<open>
  C2. The category embedded in a parsed observation should be the one the classifier
  computes from the observation's own ceiling and visibility. The mapping reads the cloud
  layers of the observation from \<^verbatim>\<open>clouds\<close> or else \<^verbatim>\<open>skyCondition\<close>, but computes the
  embedded category from \<^verbatim>\<open>clouds\<close> alone: for a record that reports an overcast layer at
  300 ft under \<^verbatim>\<open>skyCondition\<close> with 10 miles of visibility, the observation carries the
  layer (ceiling 300 ft) and the category VFR, where the classifier gives LIFR.
\<close>

theorem C2_embedded_category_misses_skyCondition:
  "(case parseMetarResponse
           (Obj [(''visib'', Str ''10''),
                 (''skyCondition'', Arr [Obj [(''skyCover'', Str ''OVC''), (''base'', Str ''300'')]])]) of
      Inl e \<Rightarrow> False
    | Inr m \<Rightarrow>
        clouds m = [\<lparr> ctype = Str ''OVC'', altitude = Some (Fin 300) \<rparr>]
        \<and> visibility m = Some (Fin 10)
        \<and> flightCategory m = VFR
        \<and> lowest_ceiling (clouds m) = Some (Fin 300)
        \<and> determineFlightCategory (lowest_ceiling (clouds m)) (visibility m) = LIFR)"
  by (simp add: parseMetarResponse_def service_determineFlightCategory_def parseClouds_def
      cloud_layer_def js_or_def parseVisibility_def or_undefined_def lowest_ceiling_def truthy_lt_def
      truthy_opt_def opt_lt_def determineFlightCategory_def defined_lt_def str_defs parseFloat_defs
      parseInt_defs)

section \<open>Properties of the visibility normalisation\<close>





text \<open>
  C4. \<^verbatim>\<open>parseVisibility("10+")\<close> is 10, \<^verbatim>\<open>parseVisibility("P6SM")\<close> is 6 and
  \<^verbatim>\<open>parseVisibility("")\<close> is absent. A non-numeric string should give absent as well, but
  the two branches that strip \<^verbatim>\<open>+\<close> or \<^verbatim>\<open>P...SM\<close> return the result of \<^verbatim>\<open>parseFloat\<close>
  as it is: \<^verbatim>\<open>"abc+"\<close> and \<^verbatim>\<open>"PxSM"\<close> give the number NaN, whereas \<^verbatim>\<open>"abc"\<close> gives
  absent.
\<close>

theorem C4_parseVisibility_examples_and_nan:
  "parseVisibility (Str ''10+'') = Some (Fin 10)
   \<and> parseVisibility (Str ''P6SM'') = Some (Fin 6)
   \<and> parseVisibility (Str '''') = None
   \<and> parseVisibility (Str ''abc'') = None
   \<and> parseVisibility (Str ''abc+'') = Some NaN
   \<and> parseVisibility (Str ''PxSM'') = Some NaN"
  by (simp add: parseVisibility_def or_undefined_def str_defs parseFloat_defs)







section \<open>Properties of the station lookup\<close>




section \<open>Properties of the intensity normalisation\<close>

lemma turbulence_worst_match:
  "parseTurbulenceIntensity v = worst_match [EXTREME, SEVERE, MODERATE] LIGHT v"
  by (simp add: parseTurbulenceIntensity_def occurs_def Let_def)

lemma icing_worst_match:
  "parseIcingIntensity v = worst_match [SEVERE, MODERATE, TRACE] LIGHT v"
  by (simp add: parseIcingIntensity_def occurs_def Let_def)

text \<open>
  C7, as stated, fails for icing: a text that contains both TRACE and LIGHT is classified
  as TRACE, the better of the two.
\<close>

theorem C7_icing_trace_before_light:
  "occurs LIGHT ''TRACE LIGHT'' \<and> occurs TRACE ''TRACE LIGHT''
   \<and> parseIcingIntensity ''TRACE LIGHT'' = TRACE
   \<and> severity (parseIcingIntensity ''TRACE LIGHT'') < severity LIGHT"
  by (simp add: parseIcingIntensity_def occurs_def upper_defs startsWith_def)

text \<open>
  C7, amended. Both normalisations match the upper-cased text against their tokens in a
  fixed order and the first match wins. For turbulence the order is EXTREME, SEVERE,
  MODERATE with the default LIGHT, so that the result is the worst turbulence intensity
  that occurs in the text. For icing the order is SEVERE, MODERATE, TRACE with the default
  LIGHT: the result is at least as bad as SEVERE or MODERATE when they occur, and a text in
  which TRACE occurs without SEVERE and MODERATE is classified as TRACE, whether or not
  LIGHT occurs too. A result other than the default occurs in the text.
\<close>

theorem C7_intensity_first_match:
  "parseTurbulenceIntensity v = worst_match [EXTREME, SEVERE, MODERATE] LIGHT v
   \<and> (occurs i v \<and> i \<noteq> TRACE \<longrightarrow> severity i \<le> severity (parseTurbulenceIntensity v))
   \<and> (parseTurbulenceIntensity v \<noteq> LIGHT \<longrightarrow> occurs (parseTurbulenceIntensity v) v)
   \<and> parseIcingIntensity v = worst_match [SEVERE, MODERATE, TRACE] LIGHT v
   \<and> (occurs i v \<and> (i = SEVERE \<or> i = MODERATE) \<longrightarrow> severity i \<le> severity (parseIcingIntensity v))
   \<and> (parseIcingIntensity v \<noteq> LIGHT \<longrightarrow> occurs (parseIcingIntensity v) v)
   \<and> (occurs TRACE v \<and> \<not> occurs SEVERE v \<and> \<not> occurs MODERATE v \<longrightarrow> parseIcingIntensity v = TRACE)"
proof -
  have t: "occurs i v \<and> i \<noteq> TRACE \<longrightarrow> severity i \<le> severity (parseTurbulenceIntensity v)"
    by (cases i) (auto simp add: turbulence_worst_match)
  have c: "occurs i v \<and> (i = SEVERE \<or> i = MODERATE) \<longrightarrow> severity i \<le> severity (parseIcingIntensity v)"
    by (auto simp add: icing_worst_match)
  show ?thesis
    using t c by (simp add: turbulence_worst_match icing_worst_match)
qed

theorem C7_intensity_first_match_witness:
  "occurs LIGHT ''light, occasional Severe'' \<and> LIGHT \<noteq> TRACE
   \<and> severity LIGHT \<le> severity (parseTurbulenceIntensity ''light, occasional Severe'')
   \<and> parseTurbulenceIntensity ''light, occasional Severe'' = SEVERE
   \<and> occurs SEVERE ''light, occasional Severe''"
  using C7_intensity_first_match [of "''light, occasional Severe''" LIGHT]
  by (simp add: parseTurbulenceIntensity_def occurs_def upper_defs startsWith_def)

section \<open>Properties of the cloud-layer parser\<close>





section \<open>Properties of the segmentation of raw text\<close>

lemma split_acc_head:
  "\<exists>rest. split_acc d cur s = (rev cur @ takeWhile (\<lambda>c. c \<noteq> d) s) # rest"
proof (induction s arbitrary: cur)
  case Nil
  show ?case by simp
next
  case (Cons c s)
  show ?case
    using Cons [of "c # cur"] by (cases "c = d") simp_all
qed

lemma split_space_first:
  "\<exists>rest. split_char (CHR '' '') (trim l) = first_space_token l # rest"
  using split_acc_head [of "CHR '' ''" "[]" "trim l"]
  by (simp add: split_char_def first_space_token_def)

lemma segment_loop_eq:
  "segment_loop lines results =
     Inr (results @ map (\<lambda>l. \<lparr> raw_text = trim l, station_id = first_space_token l \<rparr>)
            (filter (\<lambda>l. trim l \<noteq> [] \<and> station_pattern (first_space_token l)) lines))"
proof (induction lines arbitrary: results)
  case Nil
  show ?case by simp
next
  case (Cons line lines)
  obtain rest where sp: "split_char (CHR '' '') (trim line) = first_space_token line # rest"
    using split_space_first by blast
  show ?case
    by (simp add: sp Cons.IH)
qed

text \<open>
  C9, as stated, fails: the first part of a line is delimited by the space character only.
  In a line whose identifier is followed by a tab, the first token delimited by white space
  is the identifier KDEN, yet the line yields no record.
\<close>

theorem C9_tab_delimited_line_dropped:
  "getMetarByBounds_text (''KDEN'' @ [CHR 0x09] @ ''121652Z'') = Inr []
   \<and> segment_by first_ws_token (''KDEN'' @ [CHR 0x09] @ ''121652Z'')
       = [\<lparr> raw_text = ''KDEN'' @ [CHR 0x09] @ ''121652Z'', station_id = ''KDEN'' \<rparr>]"
  by (simp add: getMetarByBounds_text_def segment_by_def split_char_def first_ws_token_def trim_def
      is_ws_def station_pattern_def is_upper_def)

text \<open>
  C9, amended. For every text, each non-blank line whose first token as delimited by the
  space character (the trimmed line up to its first space) consists of four upper-case
  letters yields exactly one record, with that token as station and the trimmed line as
  raw text, in the order of the lines; every other line yields no record, and no error is
  raised. The two-line text of KDEN and KLAS yields the two records of KDEN and KLAS.
\<close>

theorem C9_segmentation_by_space_token:
  "getMetarByBounds_text data = Inr (segment_by first_space_token data)
   \<and> getMetarByBounds_text (''KDEN 121652Z ...'' @ [CHR 0x0A] @ ''KLAS 121653Z ...'' @ [CHR 0x0A])
       = Inr [\<lparr> raw_text = ''KDEN 121652Z ...'', station_id = ''KDEN'' \<rparr>,
              \<lparr> raw_text = ''KLAS 121653Z ...'', station_id = ''KLAS'' \<rparr>]"
proof -
  have g: "getMetarByBounds_text d = Inr (segment_by first_space_token d)" for d
  proof -
    have "filter (\<lambda>l. trim l \<noteq> [] \<and> station_pattern (first_space_token l))
            (filter (\<lambda>line. trim line \<noteq> []) ls)
          = filter (\<lambda>l. trim l \<noteq> [] \<and> station_pattern (first_space_token l)) ls" for ls
      by (induction ls) simp_all
    then show ?thesis
      by (simp add: getMetarByBounds_text_def segment_loop_eq segment_by_def)
  qed
  have e: "segment_by first_space_token
             (''KDEN 121652Z ...'' @ [CHR 0x0A] @ ''KLAS 121653Z ...'' @ [CHR 0x0A])
       = [\<lparr> raw_text = ''KDEN 121652Z ...'', station_id = ''KDEN'' \<rparr>,
          \<lparr> raw_text = ''KLAS 121653Z ...'', station_id = ''KLAS'' \<rparr>]"
    by (simp add: segment_by_def split_char_def first_space_token_def trim_def is_ws_def
        station_pattern_def is_upper_def)
  show ?thesis using g e by simp
qed

section \<open>Properties of the METAR decoder\<close>

lemma split_acc_two:
  "d \<in> set s \<Longrightarrow> \<exists>a b rest. split_acc d cur s = a # b # rest"
proof (induction s arbitrary: cur)
  case Nil
  then show ?case by simp
next
  case (Cons c s)
  show ?case
  proof (cases "c = d")
    case True
    obtain rest where "split_acc d [] s = (rev [] @ takeWhile (\<lambda>c. c \<noteq> d) s) # rest"
      using split_acc_head [of d "[]" s] by blast
    with True show ?thesis by simp
  next
    case False
    with Cons.prems have "d \<in> set s" by simp
    from Cons.IH [OF this, of "c # cur"] False show ?thesis by simp
  qed
qed

lemma startsWith_slash_in_set:
  "startsWith (drop n s) ''/'' \<Longrightarrow> CHR ''/'' \<in> set s"
proof -
  assume "startsWith (drop n s) ''/''"
  then have "take 1 (drop n s) = ''/''" by (simp add: startsWith_def)
  then have "CHR ''/'' \<in> set (take 1 (drop n s))" by simp
  then show ?thesis by (meson in_set_dropD in_set_takeD)
qed

lemma temperature_pattern_slash:
  "temperature_pattern p \<Longrightarrow> CHR ''/'' \<in> set p"
proof -
  assume "temperature_pattern p"
  then have "CHR ''/'' \<in> set (after_m p)"
    unfolding temperature_pattern_def using startsWith_slash_in_set by blast
  then show ?thesis
    by (cases p) (auto simp add: after_m_def split: if_splits)
qed

text \<open>The decoder on a complete report, group by group.\<close>

lemma decodeMetar_example:
  "decodeMetar ''METAR KDEN 121652Z 27015G25KT 10SM FEW050 22/10 A2992 RMK AO2''
     = Inr (''Decoded METAR:'' @ nl @ nl
            @ ''Type: Routine observation'' @ nl
            @ ''Station: KDEN'' @ nl
            @ ''Observation Time: Day 12, 16:52 UTC'' @ nl
            @ ''Wind: 270'' @ degree @ '' at 15 knots gusting to 25 knots'' @ nl
            @ ''Visibility: 10SM'' @ nl
            @ ''Clouds: Few at 5000 ft'' @ nl
            @ ''Temperature: 22'' @ degree @ ''C, Dewpoint: 10'' @ degree @ ''C'' @ nl
            @ ''Altimeter: 29.92 inHg'' @ nl
            @ ''Remarks: AO2'' @ nl)"
  by code_simp

text \<open>The temperature stage never raises: a part that matches the pattern holds a slash.\<close>

lemma temperature_stage_total: "\<exists>r. temperature_stage ps = Inr r"
proof (cases ps)
  case Nil
  then show ?thesis by (simp add: temperature_stage_def)
next
  case (Cons p rest)
  show ?thesis
  proof (cases "temperature_pattern p")
    case True
    then obtain a b ts where "split_char (CHR ''/'') p = a # b # ts"
      using split_acc_two [OF temperature_pattern_slash, of p "[]"] by (auto simp add: split_char_def)
    with True Cons show ?thesis by (simp add: temperature_stage_def)
  next
    case False
    with Cons show ?thesis by (simp add: temperature_stage_def)
  qed
qed

text \<open>
  C5, as stated, fails: the decoder does not fail on the empty string. It returns the
  header of the decoded report, and no error.
\<close>

theorem C5_empty_report_is_decoded:
  "decodeMetar '''' = Inr (''Decoded METAR:'' @ nl @ nl)"
  by (simp add: decodeMetar_def trim_def split_ws_def type_stage_def station_stage_def time_stage_def
      wind_stage_def temperature_stage_def altimeter_stage_def remarks_text_def temperature_pattern_def
      pressure_pattern_def after_m_def digits_at_def startsWith_def whole_miles_def fraction_miles_def
      weather_pattern_def after_sign_def upper_run_def)

text \<open>
  C5, amended. The decoder never fails: for every input, the empty string included, it
  returns a prose string, which starts with the header line \<^verbatim>\<open>Decoded METAR:\<close> and an empty
  line.
\<close>

theorem C5_decoder_never_fails:
  "\<exists>text. decodeMetar r = Inr (''Decoded METAR:'' @ nl @ nl @ text)"
proof -
  obtain ps8 t8 where "temperature_stage
      (fst (clouds_loop (fst (weather_loop (fst (visibility_loop (fst (wind_stage (fst (time_stage
        (fst (station_stage (fst (type_stage (split_ws (trim r)))))))))))) [])) [])) = Inr (ps8, t8)"
    using temperature_stage_total by (metis surj_pair)
  then show ?thesis
    by (simp add: decodeMetar_def Let_def split_beta)
qed

end
